theory Spec2Isabelle
  imports Main
begin

section \<open>Data model\<close>

text \<open>
  The repository holds two batch jobs, \<^verbatim>\<open>update_librenms.py\<close> (devices, from the
  Device-API) and \<^verbatim>\<open>sync_elements_to_librenms.py\<close> (elements, from the Element API).
  Both load the LibreNMS inventory and the source inventory, diff them and call the
  LibreNMS manager. The manager, the source API and the regular-expression engine are
  libraries outside the repository: what they return is an input of the model, and the
  calls the job makes on the manager are its output, a list in the order of the calls.

  Python dictionaries are association lists (insertion order is the iteration order),
  looked up with \<^const>\<open>map_of\<close>. The dictionaries of the inventories carry the keys
  the code reads without a test (\<^verbatim>\<open>device["enabled"]\<close>, \<^verbatim>\<open>api_element['active']\<close>,
  ...), so these are record fields; a key the code tests with \<^verbatim>\<open>in\<close> first is an
  \<open>option\<close> field. A dictionary with such keys is not empty, so the truth test
  \<^verbatim>\<open>if api_device:\<close> always passes and has no branch in the model.
\<close>

type_synonym name = string

text \<open>A compiled regular expression is identified with its pattern; \<open>search p s\<close>
  stands for \<^verbatim>\<open>re.compile(p).search(s)\<close> finding a match.\<close>

type_synonym regex = string
type_synonym searcher = "regex \<Rightarrow> string \<Rightarrow> bool"

text \<open>The calls on the LibreNMS manager that change LibreNMS. The update calls carry
  the value of \<^verbatim>\<open>data.ignore\<close>, the only attribute the jobs ever set.\<close>

datatype call =
    Create_device name
  | Delete_device name
  | Load_devices
  | Update_device name int
  | Update_device_interface int int
  | Create_element name
  | Delete_element name
  | Update_element name int
  | Update_element_interface int int

record librenms_device =
  device_ignore :: int

record librenms_interface =
  ifname :: string
  ifalias :: string
  ifdescr :: string
  ignore :: int
  port_id :: int

record api_interface =
  tags :: "string list"
  role :: "string option"

record api_device =
  enabled :: bool
  monitor_librenms :: bool
  alarm_interfaces :: bool
  interfaces :: "(string \<times> api_interface) list"

record element_interface =
  element_role :: "string option"

record api_element =
  active :: bool
  element_monitor_librenms :: "bool option"
  element_interfaces :: "(string \<times> element_interface) list option"

text \<open>What the job reads from its configuration and from LibreNMS while it runs:
  the compiled allow-list and deny-list, the persistent names
  (\<^verbatim>\<open>persistent_devices\<close>, \<^verbatim>\<open>persistent_elements\<close>), and the answer of
  \<^verbatim>\<open>get_device_interfaces\<close> / \<^verbatim>\<open>get_element_interfaces\<close>, \<open>None\<close> for Python's
  \<^verbatim>\<open>None\<close>.\<close>

record job_env =
  search :: searcher
  roles_enabled_compiled :: "regex list"
  interfaces_disabled_compiled :: "regex list"
  persistent :: "name list"
  get_interfaces :: "name \<Rightarrow> (string \<times> librenms_interface) list option"

section \<open>update_librenms.py\<close>

subsection \<open>sync_interfaces\<close>

text \<open>Lines 64-71: the name under which the LibreNMS interface is known to the
  Device-API, tried as \<^verbatim>\<open>ifname\<close>, \<^verbatim>\<open>ifalias\<close>, \<^verbatim>\<open>ifdescr\<close> in this order; the
  entry found is returned with it (line 81 reads it under that name).\<close>

definition dev_interface_name ::
  "librenms_interface \<Rightarrow> (string \<times> api_interface) list \<Rightarrow> (string \<times> api_interface) option" where
  "dev_interface_name librenms_interface api_device_interfaces =
     (case map_of api_device_interfaces (ifname librenms_interface) of
        Some i \<Rightarrow> Some (ifname librenms_interface, i)
      | None \<Rightarrow>
     (case map_of api_device_interfaces (ifalias librenms_interface) of
        Some i \<Rightarrow> Some (ifalias librenms_interface, i)
      | None \<Rightarrow>
     (case map_of api_device_interfaces (ifdescr librenms_interface) of
        Some i \<Rightarrow> Some (ifdescr librenms_interface, i)
      | None \<Rightarrow> None)))"

text \<open>Lines 92-96 and 98-101: the two loops over the compiled patterns.\<close>

definition dev_roles_loop :: "searcher \<Rightarrow> regex list \<Rightarrow> string \<Rightarrow> int \<Rightarrow> int" where
  "dev_roles_loop srch roles r ignore0 =
     fold (\<lambda>role_regex ig. if srch role_regex r then 0 else ig) roles ignore0"

definition disabled_loop :: "searcher \<Rightarrow> regex list \<Rightarrow> string \<Rightarrow> int \<Rightarrow> int" where
  "disabled_loop srch denies n ignore0 =
     fold (\<lambda>interface_regex ig. if srch interface_regex n then 1 else ig) denies ignore0"

text \<open>Lines 74-101: the rule evaluation for one LibreNMS interface. The test
  \<^verbatim>\<open>if librenms_interface_name:\<close> is a truth test: it fails for \<^verbatim>\<open>None\<close> and for
  the empty string.\<close>

definition dev_interface_ignore :: "job_env \<Rightarrow> api_device \<Rightarrow> librenms_interface \<Rightarrow> int" where
  "dev_interface_ignore cfg api_device librenms_interface =
     (let ignore0 = (if alarm_interfaces api_device then 0 else 1) in
      case dev_interface_name librenms_interface (interfaces api_device) of
        None \<Rightarrow> ignore0
      | Some (librenms_interface_name, api_device_interface) \<Rightarrow>
          if librenms_interface_name = [] then ignore0
          else
            let ignore1 = (if ''uplink'' \<in> set (tags api_device_interface) then 0 else ignore0);
                ignore2 = (if ''librenms_alarm_disable'' \<in> set (tags api_device_interface)
                           then 1 else ignore1);
                ignore3 = (if ''librenms_alarm_enable'' \<in> set (tags api_device_interface)
                           then 0 else ignore2);
                ignore4 = (case role api_device_interface of
                             None \<Rightarrow> ignore3
                           | Some r \<Rightarrow>
                               dev_roles_loop (search cfg) (roles_enabled_compiled cfg) r ignore3)
            in disabled_loop (search cfg) (interfaces_disabled_compiled cfg)
                 librenms_interface_name ignore4)"

text \<open>Lines 103-109: the update call for one interface, made only when the stored
  flag differs from the derived one.\<close>

definition dev_sync_interface :: "job_env \<Rightarrow> api_device \<Rightarrow> librenms_interface \<Rightarrow> call list" where
  "dev_sync_interface cfg api_device librenms_interface =
     (let ig = dev_interface_ignore cfg api_device librenms_interface in
      if ignore librenms_interface \<noteq> ig
      then [Update_device_interface (port_id librenms_interface) ig]
      else [])"

text \<open>Lines 44-109: \<^verbatim>\<open>sync_interfaces(name, librenms_mgr, librenms_device, api_device)\<close>.\<close>

definition dev_sync_interfaces :: "job_env \<Rightarrow> name \<Rightarrow> api_device \<Rightarrow> call list" where
  "dev_sync_interfaces cfg nm api_device =
     (case get_interfaces cfg nm of
        None \<Rightarrow> []
      | Some librenms_interfaces \<Rightarrow>
          concat (map (dev_sync_interface cfg api_device) (map snd librenms_interfaces)))"

subsection \<open>main\<close>

text \<open>Lines 146-153: the names to create, in the order of the Device-API
  dictionary.\<close>

definition dev_create_in_librenms ::
  "(name \<times> librenms_device) list \<Rightarrow> (name \<times> api_device) list \<Rightarrow> name list" where
  "dev_create_in_librenms librenms_devices api_devices =
     map fst (filter (\<lambda>(nm, device).
        enabled device \<and> monitor_librenms device \<and> map_of librenms_devices nm = None)
        api_devices)"

text \<open>Lines 158-169: the names to delete, in the order of the LibreNMS dictionary.\<close>

definition dev_delete_in_librenms ::
  "job_env \<Rightarrow> (name \<times> librenms_device) list \<Rightarrow> (name \<times> api_device) list \<Rightarrow> name list" where
  "dev_delete_in_librenms cfg librenms_devices api_devices =
     map fst (filter (\<lambda>(nm, device).
        nm \<notin> set (persistent cfg) \<and>
        (case map_of api_devices nm of
           None \<Rightarrow> True
         | Some api_device \<Rightarrow> \<not> enabled api_device))
        librenms_devices)"

text \<open>Lines 211-223: the device-level update of one device found in both
  inventories.\<close>

definition dev_update_device :: "name \<Rightarrow> librenms_device \<Rightarrow> api_device \<Rightarrow> call list" where
  "dev_update_device nm librenms_device api_device =
     (let librenms_enabled = (device_ignore librenms_device = 0);
          api_enabled = enabled api_device
      in if librenms_enabled \<noteq> api_enabled
         then [Update_device nm (if api_enabled then 0 else 1)]
         else [])"

text \<open>Lines 205-225: one round of the update loop. The loop runs over the dictionary
  \<^verbatim>\<open>librenms_devices\<close> that \<^verbatim>\<open>get_devices()\<close> returned at the start of \<^verbatim>\<open>main\<close>.\<close>

definition dev_update_step ::
  "job_env \<Rightarrow> (name \<times> api_device) list \<Rightarrow> name \<times> librenms_device \<Rightarrow> call list" where
  "dev_update_step cfg api_devices entry =
     (case map_of api_devices (fst entry) of
        None \<Rightarrow> []
      | Some api_device \<Rightarrow>
          dev_update_device (fst entry) (snd entry) api_device
          @ dev_sync_interfaces cfg (fst entry) api_device)"

text \<open>Lines 112-225: \<^verbatim>\<open>main()\<close>, as the list of manager calls of a run in which
  every call returns. A Python list is true when its length is not zero (line 201).\<close>

definition dev_main ::
  "job_env \<Rightarrow> (name \<times> librenms_device) list \<Rightarrow> (name \<times> api_device) list \<Rightarrow> call list" where
  "dev_main cfg librenms_devices api_devices =
     (let create_in_librenms = dev_create_in_librenms librenms_devices api_devices;
          delete_in_librenms = dev_delete_in_librenms cfg librenms_devices api_devices
      in map Create_device create_in_librenms
         @ map Delete_device delete_in_librenms
         @ (if 0 < length create_in_librenms \<or> 0 < length delete_in_librenms
            then [Load_devices] else [])
         @ concat (map (dev_update_step cfg api_devices) librenms_devices))"

section \<open>sync_elements_to_librenms.py\<close>

subsection \<open>sync_interfaces\<close>

text \<open>Lines 69-73: the loop over the compiled role patterns; a pattern that does not
  match the role sets the flag.\<close>

definition elem_roles_loop :: "searcher \<Rightarrow> regex list \<Rightarrow> string \<Rightarrow> int \<Rightarrow> int" where
  "elem_roles_loop srch roles r ignore0 =
     fold (\<lambda>role_regex ig. if \<not> srch role_regex r then 1 else ig) roles ignore0"

text \<open>Lines 65-77: the rule evaluation for the LibreNMS interface of the given name.\<close>

definition elem_interface_ignore ::
  "job_env \<Rightarrow> (string \<times> element_interface) list \<Rightarrow> string \<Rightarrow> int" where
  "elem_interface_ignore cfg element_intf librenms_interface_name =
     (case map_of element_intf librenms_interface_name of
        None \<Rightarrow> 0
      | Some element_interface \<Rightarrow>
          let ignore1 = (case element_role element_interface of
                           None \<Rightarrow> 0
                         | Some r \<Rightarrow>
                             elem_roles_loop (search cfg) (roles_enabled_compiled cfg) r 0)
          in disabled_loop (search cfg) (interfaces_disabled_compiled cfg)
               librenms_interface_name ignore1)"

text \<open>Lines 79-83: the update call for one interface.\<close>

definition elem_sync_interface ::
  "job_env \<Rightarrow> (string \<times> element_interface) list \<Rightarrow> string \<times> librenms_interface \<Rightarrow> call list" where
  "elem_sync_interface cfg element_intf entry =
     (let ig = elem_interface_ignore cfg element_intf (fst entry) in
      if ignore (snd entry) \<noteq> ig
      then [Update_element_interface (port_id (snd entry)) ig]
      else [])"

text \<open>Lines 43-83: \<^verbatim>\<open>sync_interfaces(librenms_mgr, api_elements, hostname)\<close>. Line 54
  reads \<^verbatim>\<open>api_elements[hostname]['interfaces']\<close> without a test; \<^verbatim>\<open>main\<close> calls the
  function only for an element that has the key (line 184), so the branch without it
  is never taken.\<close>

definition elem_sync_interfaces ::
  "job_env \<Rightarrow> (name \<times> api_element) list \<Rightarrow> name \<Rightarrow> call list" where
  "elem_sync_interfaces cfg api_elements hostname =
     (case get_interfaces cfg hostname of
        None \<Rightarrow> []
      | Some librenms_intf \<Rightarrow>
          (case map_of api_elements hostname of
             None \<Rightarrow> []
           | Some api_element \<Rightarrow>
               (case element_interfaces api_element of
                  None \<Rightarrow> []
                | Some element_intf \<Rightarrow>
                    concat (map (elem_sync_interface cfg element_intf) librenms_intf))))"

subsection \<open>main\<close>

text \<open>Lines 95-100: the elements to monitor; an element is left out when it has the
  key \<^verbatim>\<open>monitor_librenms\<close> with the value \<^verbatim>\<open>False\<close>. From here on the job works on
  this dictionary, \<^verbatim>\<open>api_elements\<close>.\<close>

definition elem_api_elements :: "(name \<times> api_element) list \<Rightarrow> (name \<times> api_element) list" where
  "elem_api_elements tmp_api_elements =
     filter (\<lambda>(hostname, element). element_monitor_librenms element \<noteq> Some False)
       tmp_api_elements"

text \<open>Lines 123-127: \<^verbatim>\<open>set(api_elements.keys()) - set(librenms_elements.keys())\<close>. A
  Python set is iterated in an order the language leaves open; the model keeps the
  order of the dictionary, and no theorem below depends on it.\<close>

definition elem_create_in_librenms ::
  "(name \<times> librenms_device) list \<Rightarrow> (name \<times> api_element) list \<Rightarrow> name list" where
  "elem_create_in_librenms librenms_elements api_elements =
     remdups (filter (\<lambda>d. d \<notin> set (map fst librenms_elements)) (map fst api_elements))"

text \<open>Lines 132-138: the LibreNMS names that are neither in \<^verbatim>\<open>api_elements\<close> nor
  persistent.\<close>

definition elem_delete_in_librenms ::
  "job_env \<Rightarrow> (name \<times> librenms_device) list \<Rightarrow> (name \<times> api_element) list \<Rightarrow> name list" where
  "elem_delete_in_librenms cfg librenms_elements api_elements =
     remdups (filter (\<lambda>d. d \<notin> set (map fst api_elements) \<and> d \<notin> set (persistent cfg))
       (map fst librenms_elements))"

text \<open>Lines 171-183: the element-level update.\<close>

definition elem_update_element :: "name \<Rightarrow> librenms_device \<Rightarrow> api_element \<Rightarrow> call list" where
  "elem_update_element hostname librenms_element api_element =
     (let librenms_active = (device_ignore librenms_element = 0);
          api_active = active api_element
      in if librenms_active \<noteq> api_active
         then [Update_element hostname (if api_active then 0 else 1)]
         else [])"

text \<open>Lines 165-185: one round of the update loop.\<close>

definition elem_update_step ::
  "job_env \<Rightarrow> (name \<times> api_element) list \<Rightarrow> name \<times> librenms_device \<Rightarrow> call list" where
  "elem_update_step cfg api_elements entry =
     (case map_of api_elements (fst entry) of
        None \<Rightarrow> []
      | Some api_element \<Rightarrow>
          elem_update_element (fst entry) (snd entry) api_element
          @ (case element_interfaces api_element of
               None \<Rightarrow> []
             | Some element_intf \<Rightarrow> elem_sync_interfaces cfg api_elements (fst entry)))"

text \<open>Lines 86-185: \<^verbatim>\<open>main()\<close>, as the list of manager calls of a run in which every
  call returns. The lists \<^verbatim>\<open>create_in_librenms\<close> and \<^verbatim>\<open>delete_in_librenms\<close> are
  module globals, empty when \<^verbatim>\<open>main\<close> starts: the script calls it once.\<close>

definition elem_main ::
  "job_env \<Rightarrow> (name \<times> librenms_device) list \<Rightarrow> (name \<times> api_element) list \<Rightarrow> call list" where
  "elem_main cfg librenms_elements tmp_api_elements =
     (let api_elements = elem_api_elements tmp_api_elements;
          create_in_librenms = elem_create_in_librenms librenms_elements api_elements;
          delete_in_librenms = elem_delete_in_librenms cfg librenms_elements api_elements
      in map Create_element create_in_librenms
         @ map Delete_element delete_in_librenms
         @ concat (map (elem_update_step cfg api_elements) librenms_elements))"

section \<open>The scripts\<close>

text \<open>Both files have the same top level. The module body loads the configuration and
  compiles the patterns of the two lists (lines 32-41 of \<^verbatim>\<open>update_librenms.py\<close>,
  28-40 of \<^verbatim>\<open>sync_elements_to_librenms.py\<close>); then, under
  \<^verbatim>\<open>if __name__ == '__main__':\<close>, the script calls \<^verbatim>\<open>main()\<close> inside
  \<^verbatim>\<open>try ... except:\<close>, whose handler calls \<^verbatim>\<open>utils.send_traceback()\<close>.\<close>

record config =
  roles_enabled :: "string list"
  interfaces_disabled :: "string list"
  persistent_names :: "name list"

text \<open>The world the script runs in: whether \<^verbatim>\<open>utils.load_config\<close> returns (\<open>None\<close>:
  it raises), which patterns \<^verbatim>\<open>re.compile\<close> accepts (it raises \<^verbatim>\<open>re.error\<close> on the
  others), what a compiled pattern finds, what LibreNMS answers for the interfaces of
  a name, whether and where an exception is raised inside \<^verbatim>\<open>main\<close> (\<open>Some k\<close>: when
  \<open>k\<close> manager calls have been made), and whether \<^verbatim>\<open>utils.send_traceback\<close> returns.\<close>

record world =
  load_config :: "config option"
  compiles :: "string \<Rightarrow> bool"
  regex_search :: searcher
  librenms_interfaces_of :: "name \<Rightarrow> (string \<times> librenms_interface) list option"
  fault :: "nat option"
  send_traceback_returns :: bool

text \<open>How the script ends, with the manager calls it made: \<^verbatim>\<open>main\<close> returned; the
  handler caught an exception and reported it; an exception left the script.\<close>

datatype outcome = Finished "call list" | Reported "call list" | Propagated "call list"

definition job_env_of :: "world \<Rightarrow> config \<Rightarrow> job_env" where
  "job_env_of w conf =
     \<lparr> search = regex_search w,
       roles_enabled_compiled = roles_enabled conf,
       interfaces_disabled_compiled = interfaces_disabled conf,
       persistent = persistent_names conf,
       get_interfaces = librenms_interfaces_of w \<rparr>"

text \<open>The \<^verbatim>\<open>try\<close> statement around \<^verbatim>\<open>main()\<close>; \<open>planned\<close> are the calls of a run of
  \<^verbatim>\<open>main\<close> in which nothing is raised.\<close>

definition try_main :: "world \<Rightarrow> call list \<Rightarrow> outcome" where
  "try_main w planned =
     (case fault w of
        None \<Rightarrow> Finished planned
      | Some k \<Rightarrow>
          if send_traceback_returns w then Reported (take k planned)
          else Propagated (take k planned))"

definition script :: "world \<Rightarrow> (job_env \<Rightarrow> call list) \<Rightarrow> outcome" where
  "script w main_calls =
     (case load_config w of
        None \<Rightarrow> Propagated []
      | Some conf \<Rightarrow>
          if \<not> list_all (compiles w) (roles_enabled conf) then Propagated []
          else if \<not> list_all (compiles w) (interfaces_disabled conf) then Propagated []
          else try_main w (main_calls (job_env_of w conf)))"

definition dev_script ::
  "world \<Rightarrow> (name \<times> librenms_device) list \<Rightarrow> (name \<times> api_device) list \<Rightarrow> outcome" where
  "dev_script w librenms_devices api_devices =
     script w (\<lambda>cfg. dev_main cfg librenms_devices api_devices)"

definition elem_script ::
  "world \<Rightarrow> (name \<times> librenms_device) list \<Rightarrow> (name \<times> api_element) list \<Rightarrow> outcome" where
  "elem_script w librenms_elements tmp_api_elements =
     script w (\<lambda>cfg. elem_main cfg librenms_elements tmp_api_elements)"

section \<open>Reading a list of calls\<close>

text \<open>The stage of the reconciliation a call belongs to: create, delete, update.\<close>

fun phase :: "call \<Rightarrow> nat" where
  "phase (Create_device _) = 0"
| "phase (Create_element _) = 0"
| "phase (Delete_device _) = 1"
| "phase (Delete_element _) = 1"
| "phase _ = 2"

text \<open>The values the device-level update calls of a list store for one name, in the
  order of the calls, and the flag LibreNMS holds for the name afterwards:
  \<^verbatim>\<open>update_device(name, data)\<close> stores \<^verbatim>\<open>data.ignore\<close>.\<close>

fun device_update_of :: "name \<Rightarrow> call \<Rightarrow> int option" where
  "device_update_of nm (Update_device n v) = (if n = nm then Some v else None)"
| "device_update_of nm (Update_element n v) = (if n = nm then Some v else None)"
| "device_update_of nm _ = None"

definition device_updates :: "name \<Rightarrow> call list \<Rightarrow> int list" where
  "device_updates nm calls = List.map_filter (device_update_of nm) calls"

definition ignore_after :: "name \<Rightarrow> int \<Rightarrow> call list \<Rightarrow> int" where
  "ignore_after nm stored calls =
     (case device_updates nm calls of [] \<Rightarrow> stored | v # vs \<Rightarrow> last (v # vs))"

text \<open>A searcher for evaluating the jobs on concrete inputs: a pattern without
  metacharacters finds a match in exactly the strings that contain it.\<close>

fun search_literal :: searcher where
  "search_literal p [] = (p = [])"
| "search_literal p (c # cs) = (take (length p) (c # cs) = p \<or> search_literal p cs)"

section \<open>Example inputs\<close>

text \<open>A configuration with two allowed roles and one denied interface pattern, a
  device with three interfaces and what LibreNMS holds for them.\<close>

definition example_env :: job_env where
  "example_env =
     \<lparr> search = search_literal,
       roles_enabled_compiled = [''uplink'', ''core''],
       interfaces_disabled_compiled = [''Vlan''],
       persistent = [''nms1''],
       get_interfaces = (\<lambda>nm.
          if nm = ''sw1''
          then Some [(''1'', \<lparr>ifname = ''Vlan10'', ifalias = [], ifdescr = [], ignore = 0, port_id = 1\<rparr>),
                     (''2'', \<lparr>ifname = ''eth0'', ifalias = [], ifdescr = [], ignore = 1, port_id = 2\<rparr>),
                     (''3'', \<lparr>ifname = ''eth1'', ifalias = [], ifdescr = [], ignore = 1, port_id = 3\<rparr>)]
          else if nm = ''r1''
          then Some [(''Vlan10'', \<lparr>ifname = ''Vlan10'', ifalias = [], ifdescr = [], ignore = 0, port_id = 11\<rparr>),
                     (''eth0'', \<lparr>ifname = ''eth0'', ifalias = [], ifdescr = [], ignore = 0, port_id = 12\<rparr>)]
          else None) \<rparr>"

definition example_interfaces :: "(string \<times> api_interface) list" where
  "example_interfaces =
     [(''Vlan10'', \<lparr>tags = [''librenms_alarm_enable''], role = Some ''uplink''\<rparr>),
      (''eth0'', \<lparr>tags = [''librenms_alarm_disable'', ''librenms_alarm_enable''], role = None\<rparr>),
      (''eth1'', \<lparr>tags = [], role = Some ''core-link''\<rparr>)]"

definition example_device :: api_device where
  "example_device =
     \<lparr> enabled = True, monitor_librenms = True, alarm_interfaces = False,
       interfaces = example_interfaces \<rparr>"

definition example_port :: "string \<Rightarrow> librenms_interface" where
  "example_port n = \<lparr>ifname = n, ifalias = [], ifdescr = [], ignore = 0, port_id = 1\<rparr>"

definition example_element_intf :: "(string \<times> element_interface) list" where
  "example_element_intf =
     [(''Vlan10'', \<lparr>element_role = Some ''uplink''\<rparr>),
      (''eth0'', \<lparr>element_role = Some ''uplink''\<rparr>)]"

text \<open>The two inventories of a run of \<^verbatim>\<open>update_librenms.py\<close>: \<open>sw1\<close> is in both,
  enabled, with alerts ignored in LibreNMS; \<open>sw2\<close> is new; \<open>sw3\<close> is in both and
  disabled; \<open>sw4\<close> is new and disabled; \<open>nms1\<close> (persistent) and \<open>old1\<close> are in
  LibreNMS only.\<close>

definition example_librenms_devices :: "(name \<times> librenms_device) list" where
  "example_librenms_devices =
     [(''sw1'', \<lparr>device_ignore = 1\<rparr>), (''sw3'', \<lparr>device_ignore = 0\<rparr>),
      (''nms1'', \<lparr>device_ignore = 0\<rparr>), (''old1'', \<lparr>device_ignore = 0\<rparr>)]"

definition example_api_devices :: "(name \<times> api_device) list" where
  "example_api_devices =
     [(''sw1'', example_device),
      (''sw2'', \<lparr>enabled = True, monitor_librenms = True, alarm_interfaces = True, interfaces = []\<rparr>),
      (''sw3'', \<lparr>enabled = False, monitor_librenms = True, alarm_interfaces = True, interfaces = []\<rparr>),
      (''sw4'', \<lparr>enabled = False, monitor_librenms = True, alarm_interfaces = True, interfaces = []\<rparr>)]"

text \<open>The two inventories of a run of \<^verbatim>\<open>sync_elements_to_librenms.py\<close>: \<open>r1\<close> is in
  both, inactive, with alerts on in LibreNMS; \<open>r2\<close> is new; \<open>r3\<close> is new and not to be
  monitored; \<open>r4\<close> is in both, active, with alerts ignored in LibreNMS.\<close>

definition example_librenms_elements :: "(name \<times> librenms_device) list" where
  "example_librenms_elements =
     [(''r1'', \<lparr>device_ignore = 0\<rparr>), (''nms1'', \<lparr>device_ignore = 0\<rparr>),
      (''old1'', \<lparr>device_ignore = 0\<rparr>), (''r4'', \<lparr>device_ignore = 1\<rparr>)]"

definition example_tmp_api_elements :: "(name \<times> api_element) list" where
  "example_tmp_api_elements =
     [(''r1'', \<lparr>active = False, element_monitor_librenms = None,
                element_interfaces = Some example_element_intf\<rparr>),
      (''r2'', \<lparr>active = True, element_monitor_librenms = Some True, element_interfaces = None\<rparr>),
      (''r3'', \<lparr>active = True, element_monitor_librenms = Some False, element_interfaces = None\<rparr>),
      (''r4'', \<lparr>active = True, element_monitor_librenms = None, element_interfaces = None\<rparr>)]"

text \<open>A run of \<^verbatim>\<open>sync_elements_to_librenms.py\<close> in which the element \<open>r5\<close> is in the
  Element API, active, with \<^verbatim>\<open>monitor_librenms\<close> set to \<^verbatim>\<open>False\<close>, and in LibreNMS with
  alerts ignored.\<close>

definition example_unmonitored_librenms_elements :: "(name \<times> librenms_device) list" where
  "example_unmonitored_librenms_elements = [(''r5'', \<lparr>device_ignore = 1\<rparr>)]"

definition example_unmonitored_tmp_api_elements :: "(name \<times> api_element) list" where
  "example_unmonitored_tmp_api_elements =
     [(''r5'', \<lparr>active = True, element_monitor_librenms = Some False,
                element_interfaces = None\<rparr>)]"

text \<open>Two worlds for the scripts: in the first the configuration loads, every pattern
  compiles and \<^verbatim>\<open>main\<close> raises after its second manager call; in the second the
  allow-list holds the pattern \<open>(uplink\<close>, which \<^verbatim>\<open>re.compile\<close> rejects (missing
  closing parenthesis).\<close>

definition example_world :: world where
  "example_world =
     \<lparr> load_config = Some \<lparr>roles_enabled = [''uplink'', ''core''],
                            interfaces_disabled = [''Vlan''],
                            persistent_names = [''nms1'']\<rparr>,
       compiles = (\<lambda>p. p \<noteq> ''(uplink''),
       regex_search = search_literal,
       librenms_interfaces_of = get_interfaces example_env,
       fault = Some 2,
       send_traceback_returns = True \<rparr>"

definition example_world_bad_pattern :: world where
  "example_world_bad_pattern =
     example_world \<lparr> load_config := Some \<lparr>roles_enabled = [''(uplink''],
                                               interfaces_disabled = [''Vlan''],
                                               persistent_names = [''nms1'']\<rparr>,
                     fault := None \<rparr>"

section \<open>The rule evaluation\<close>

lemma dev_roles_loop_eq:
  "dev_roles_loop srch roles r i = (if \<exists>rx\<in>set roles. srch rx r then 0 else i)"
  unfolding dev_roles_loop_def by (induction roles arbitrary: i) auto

lemma disabled_loop_eq:
  "disabled_loop srch denies n i = (if \<exists>rx\<in>set denies. srch rx n then 1 else i)"
  unfolding disabled_loop_def by (induction denies arbitrary: i) auto

lemma elem_roles_loop_eq:
  "elem_roles_loop srch roles r i = (if \<exists>rx\<in>set roles. \<not> srch rx r then 1 else i)"
  unfolding elem_roles_loop_def by (induction roles arbitrary: i) auto

lemma example_searches:
  "search_literal ''uplink'' ''uplink''" "\<not> search_literal ''core'' ''uplink''"
  "search_literal ''Vlan'' ''Vlan10''" "\<not> search_literal ''Vlan'' ''eth0''"
  "\<not> search_literal ''Vlan'' ''eth1''" "search_literal ''core'' ''core-link''"
  "\<not> search_literal ''uplink'' ''core-link''"
  by simp_all

text \<open>
  C4, in \<^verbatim>\<open>sync_elements_to_librenms.py\<close>: the allow-list is \<open>uplink\<close>, \<open>core\<close>; the
  interface \<open>eth0\<close> is in the source inventory with the role \<open>uplink\<close>, which matches
  the first pattern, and its name matches no pattern of the deny-list. The rule
  evaluation of lines 65-77 still derives ignore = 1, because the second pattern does
  not match the role.
\<close>

theorem elem_allow_list_one_of_two_patterns:
  "map_of example_element_intf ''eth0'' = Some \<lparr>element_role = Some ''uplink''\<rparr>
   \<and> search example_env ''uplink'' ''uplink''
   \<and> \<not> search example_env ''Vlan'' ''eth0''
   \<and> elem_interface_ignore example_env example_element_intf ''eth0'' = 1"
  by (simp add: example_env_def example_element_intf_def elem_interface_ignore_def
      elem_roles_loop_def disabled_loop_def)

text \<open>
  In \<^verbatim>\<open>update_librenms.py\<close> one matching pattern of the allow-list is enough: an
  interface found in the Device-API under a non-empty name, whose role matches some
  pattern of \<^verbatim>\<open>roles_enabled\<close> and whose name matches no pattern of
  \<^verbatim>\<open>interfaces_disabled\<close>, gets ignore = 0.
\<close>

theorem dev_allow_list_any_pattern:
  assumes "dev_interface_name li (interfaces ad) = Some (n, ai)" and "n \<noteq> []"
    and "role ai = Some r"
    and "\<exists>rx\<in>set (roles_enabled_compiled cfg). search cfg rx r"
    and "\<forall>rx\<in>set (interfaces_disabled_compiled cfg). \<not> search cfg rx n"
  shows "dev_interface_ignore cfg ad li = 0"
  using assms
  by (simp add: dev_interface_ignore_def disabled_loop_eq dev_roles_loop_eq Let_def)

theorem dev_allow_list_any_pattern_witness:
  "dev_interface_name (example_port ''eth1'') (interfaces example_device)
     = Some (''eth1'', \<lparr>tags = [], role = Some ''core-link''\<rparr>)
   \<and> ''eth1'' \<noteq> []
   \<and> search example_env ''core'' ''core-link''
   \<and> \<not> search example_env ''uplink'' ''core-link''
   \<and> \<not> search example_env ''Vlan'' ''eth1''
   \<and> dev_interface_ignore example_env example_device (example_port ''eth1'') = 0"
proof -
  have n: "dev_interface_name (example_port ''eth1'') (interfaces example_device)
     = Some (''eth1'', \<lparr>tags = [], role = Some ''core-link''\<rparr>)"
    by (simp add: dev_interface_name_def example_port_def example_device_def
        example_interfaces_def)
  have s: "search example_env = search_literal"
    "roles_enabled_compiled example_env = [''uplink'', ''core'']"
    "interfaces_disabled_compiled example_env = [''Vlan'']"
    by (simp_all add: example_env_def)
  from dev_allow_list_any_pattern [OF n, of "''core-link''" example_env] n s
  show ?thesis by simp
qed

text \<open>
  C5: an interface that is in the source inventory of its device and whose name
  matches at least one pattern of the deny-list gets ignore = 1, whatever its tags,
  its role and the default of the device. In \<^verbatim>\<open>update_librenms.py\<close> the interface is
  in the inventory when the lookup of lines 64-71 finds it under a name \<open>n\<close>, which
  the truth test of line 80 wants non-empty; in \<^verbatim>\<open>sync_elements_to_librenms.py\<close> when
  its LibreNMS name is a key of the element's interfaces.
\<close>

theorem deny_list_sets_ignore:
  assumes "\<exists>rx\<in>set (interfaces_disabled_compiled cfg). search cfg rx n"
    and "dev_interface_name li (interfaces ad) = Some (n, ai)" and "n \<noteq> []"
    and "map_of element_intf n = Some ei"
  shows "dev_interface_ignore cfg ad li = 1 \<and> elem_interface_ignore cfg element_intf n = 1"
  using assms
  by (simp add: dev_interface_ignore_def elem_interface_ignore_def disabled_loop_eq Let_def)

theorem deny_list_sets_ignore_witness:
  "search example_env ''Vlan'' ''Vlan10''
   \<and> dev_interface_name (example_port ''Vlan10'') (interfaces example_device)
       = Some (''Vlan10'', \<lparr>tags = [''librenms_alarm_enable''], role = Some ''uplink''\<rparr>)
   \<and> ''Vlan10'' \<noteq> []
   \<and> map_of example_element_intf ''Vlan10'' = Some \<lparr>element_role = Some ''uplink''\<rparr>
   \<and> dev_interface_ignore example_env example_device (example_port ''Vlan10'') = 1
   \<and> elem_interface_ignore example_env example_element_intf ''Vlan10'' = 1"
proof -
  have n: "dev_interface_name (example_port ''Vlan10'') (interfaces example_device)
       = Some (''Vlan10'', \<lparr>tags = [''librenms_alarm_enable''], role = Some ''uplink''\<rparr>)"
    by (simp add: dev_interface_name_def example_port_def example_device_def
        example_interfaces_def)
  have e: "map_of example_element_intf ''Vlan10'' = Some \<lparr>element_role = Some ''uplink''\<rparr>"
    by (simp add: example_element_intf_def)
  have s: "search example_env = search_literal"
    "interfaces_disabled_compiled example_env = [''Vlan'']"
    by (simp_all add: example_env_def)
  have d: "\<exists>rx\<in>set (interfaces_disabled_compiled example_env).
             search example_env rx ''Vlan10''"
    by (simp add: s)
  from deny_list_sets_ignore [OF d n _ e] n e s show ?thesis by simp
qed

text \<open>
  C6, \<^verbatim>\<open>update_librenms.py\<close>: an interface found in the Device-API (under a non-empty
  name \<open>n\<close>) that bears the tag \<open>librenms_alarm_enable\<close> and whose name matches no
  pattern of the deny-list gets ignore = 0, whatever its other tags
  (\<open>librenms_alarm_disable\<close> among them), its role and the default of the device.
\<close>

theorem enable_tag_overrides:
  assumes "dev_interface_name li (interfaces ad) = Some (n, ai)" and "n \<noteq> []"
    and "''librenms_alarm_enable'' \<in> set (tags ai)"
    and "\<forall>rx\<in>set (interfaces_disabled_compiled cfg). \<not> search cfg rx n"
  shows "dev_interface_ignore cfg ad li = 0"
  using assms
  by (simp add: dev_interface_ignore_def disabled_loop_eq dev_roles_loop_eq Let_def
      split: option.splits)

theorem enable_tag_overrides_witness:
  "dev_interface_name (example_port ''eth0'') (interfaces example_device)
     = Some (''eth0'', \<lparr>tags = [''librenms_alarm_disable'', ''librenms_alarm_enable''], role = None\<rparr>)
   \<and> ''eth0'' \<noteq> []
   \<and> ''librenms_alarm_enable'' \<in> set [''librenms_alarm_disable'', ''librenms_alarm_enable'']
   \<and> \<not> search example_env ''Vlan'' ''eth0''
   \<and> \<not> alarm_interfaces example_device
   \<and> dev_interface_ignore example_env example_device (example_port ''eth0'') = 0"
proof -
  have n: "dev_interface_name (example_port ''eth0'') (interfaces example_device)
     = Some (''eth0'', \<lparr>tags = [''librenms_alarm_disable'', ''librenms_alarm_enable''], role = None\<rparr>)"
    by (simp add: dev_interface_name_def example_port_def example_device_def
        example_interfaces_def)
  have s: "search example_env = search_literal"
    "interfaces_disabled_compiled example_env = [''Vlan'']"
    by (simp_all add: example_env_def)
  have a: "\<not> alarm_interfaces example_device"
    by (simp add: example_device_def)
  from enable_tag_overrides [OF n, of example_env] n s a show ?thesis by simp
qed

section \<open>The calls of main\<close>

lemma device_updates_Nil [simp]: "device_updates nm [] = []"
  by (simp add: device_updates_def)

lemma device_updates_Cons:
  "device_updates nm (c # cs) =
     (case device_update_of nm c of
        None \<Rightarrow> device_updates nm cs
      | Some v \<Rightarrow> v # device_updates nm cs)"
  by (simp add: device_updates_def split: option.splits)

lemma device_updates_append [simp]:
  "device_updates nm (xs @ ys) = device_updates nm xs @ device_updates nm ys"
  by (induction xs) (simp_all add: device_updates_Cons split: option.splits)

lemma device_updates_none:
  "(\<And>c. c \<in> set cs \<Longrightarrow> device_update_of nm c = None) \<Longrightarrow> device_updates nm cs = []"
  by (induction cs) (simp_all add: device_updates_Cons)

lemma device_updates_empty_iff:
  "device_updates nm cs = [] \<longleftrightarrow> (\<forall>c\<in>set cs. device_update_of nm c = None)"
  by (induction cs) (auto simp: device_updates_Cons split: option.splits)

lemma device_updates_mem:
  "v \<in> set (device_updates nm cs) \<longleftrightarrow>
     Update_device nm v \<in> set cs \<or> Update_element nm v \<in> set cs"
proof (induction cs)
  case Nil
  then show ?case by simp
next
  case (Cons c cs)
  then show ?case
    by (cases c) (auto simp: device_updates_Cons)
qed

lemma device_updates_loop:
  assumes "distinct (map fst lds)" and "map_of lds nm = Some ld"
    and "\<And>e. fst e \<noteq> nm \<Longrightarrow> device_updates nm (f e) = []"
  shows "device_updates nm (concat (map f lds)) = device_updates nm (f (nm, ld))"
  using assms(1,2)
proof (induction lds)
  case Nil
  then show ?case by simp
next
  case (Cons e lds)
  show ?case
  proof (cases "fst e = nm")
    case True
    with Cons.prems have e: "e = (nm, ld)" and notin: "nm \<notin> fst ` set lds"
      by (cases e; auto)+
    have "device_updates nm (concat (map f lds)) = []"
    proof (rule device_updates_none)
      fix c assume "c \<in> set (concat (map f lds))"
      then obtain e' where e': "e' \<in> set lds" and c: "c \<in> set (f e')"
        by auto
      from e' notin have "fst e' \<noteq> nm" by auto
      then have "device_updates nm (f e') = []" by (rule assms(3))
      with c show "device_update_of nm c = None"
        by (simp add: device_updates_empty_iff)
    qed
    with e show ?thesis by simp
  next
    case False
    with Cons.prems have "map_of lds nm = Some ld" "distinct (map fst lds)"
      by (cases e; auto)+
    with Cons.IH have "device_updates nm (concat (map f lds)) = device_updates nm (f (nm, ld))"
      by simp
    with False assms(3) show ?thesis by simp
  qed
qed

subsection \<open>update_librenms.py\<close>

lemma dev_sync_interfaces_calls:
  assumes "c \<in> set (dev_sync_interfaces cfg n ad)"
  shows "\<exists>lis li. get_interfaces cfg n = Some lis \<and> li \<in> snd ` set lis \<and>
           c = Update_device_interface (port_id li) (dev_interface_ignore cfg ad li) \<and>
           ignore li \<noteq> dev_interface_ignore cfg ad li"
proof -
  from assms obtain lis where lis: "get_interfaces cfg n = Some lis"
    by (cases "get_interfaces cfg n") (simp_all add: dev_sync_interfaces_def)
  with assms obtain li where "li \<in> snd ` set lis" and "c \<in> set (dev_sync_interface cfg ad li)"
    by (auto simp: dev_sync_interfaces_def)
  with lis show ?thesis
    by (auto simp: dev_sync_interface_def Let_def split: if_splits)
qed

lemma device_updates_dev_sync_interfaces [simp]:
  "device_updates nm (dev_sync_interfaces cfg n ad) = []"
  by (rule device_updates_none) (auto dest: dev_sync_interfaces_calls)

lemma device_updates_dev_update_device:
  "device_updates nm (dev_update_device n ld ad) =
     (if n = nm \<and> (device_ignore ld = 0) \<noteq> enabled ad
      then [if enabled ad then 0 else 1] else [])"
  by (simp add: dev_update_device_def device_updates_Cons Let_def)

lemma device_updates_dev_update_step:
  "device_updates nm (dev_update_step cfg api e) =
     (case map_of api (fst e) of
        None \<Rightarrow> []
      | Some ad \<Rightarrow> device_updates nm (dev_update_device (fst e) (snd e) ad))"
  by (simp add: dev_update_step_def split: option.splits)

lemma device_updates_dev_main:
  assumes "distinct (map fst lds)" and "map_of lds nm = Some ld" and "map_of api nm = Some ad"
  shows "device_updates nm (dev_main cfg lds api) =
     (if (device_ignore ld = 0) \<noteq> enabled ad then [if enabled ad then 0 else 1] else [])"
proof -
  have "device_updates nm (concat (map (dev_update_step cfg api) lds)) =
          device_updates nm (dev_update_step cfg api (nm, ld))"
    using assms(1,2)
    by (rule device_updates_loop)
      (simp add: device_updates_dev_update_step device_updates_dev_update_device
        split: option.splits)
  moreover have "device_updates nm (map Create_device xs) = []"
    and "device_updates nm (map Delete_device xs) = []" for xs
    by (rule device_updates_none; auto)+
  ultimately show ?thesis using assms(3)
    by (simp add: dev_main_def Let_def device_updates_dev_update_step
        device_updates_dev_update_device device_updates_Cons)
qed

lemma dev_main_calls:
  "c \<in> set (dev_main cfg lds api) \<longleftrightarrow>
     (\<exists>n\<in>set (dev_create_in_librenms lds api). c = Create_device n) \<or>
     (\<exists>n\<in>set (dev_delete_in_librenms cfg lds api). c = Delete_device n) \<or>
     (c = Load_devices \<and> (dev_create_in_librenms lds api \<noteq> [] \<or> dev_delete_in_librenms cfg lds api \<noteq> [])) \<or>
     (\<exists>e\<in>set lds. c \<in> set (dev_update_step cfg api e))"
  by (auto simp: dev_main_def Let_def)

lemma dev_update_step_calls:
  "c \<in> set (dev_update_step cfg api e) \<longleftrightarrow>
     (\<exists>ad. map_of api (fst e) = Some ad \<and>
        (c \<in> set (dev_update_device (fst e) (snd e) ad) \<or> c \<in> set (dev_sync_interfaces cfg (fst e) ad)))"
  by (cases "map_of api (fst e)") (auto simp: dev_update_step_def)

lemma dev_main_no_element_update:
  "Update_element n v \<notin> set (dev_main cfg lds api)"
  by (auto simp: dev_main_calls dev_update_step_calls dev_update_device_def Let_def
      dest: dev_sync_interfaces_calls split: if_splits)

subsection \<open>sync_elements_to_librenms.py\<close>

lemma elem_sync_interfaces_calls:
  assumes "c \<in> set (elem_sync_interfaces cfg api h)"
  shows "\<exists>lis el intf e. get_interfaces cfg h = Some lis \<and> map_of api h = Some el \<and>
           element_interfaces el = Some intf \<and> e \<in> set lis \<and>
           c = Update_element_interface (port_id (snd e)) (elem_interface_ignore cfg intf (fst e)) \<and>
           ignore (snd e) \<noteq> elem_interface_ignore cfg intf (fst e)"
proof -
  from assms obtain lis where lis: "get_interfaces cfg h = Some lis"
    by (cases "get_interfaces cfg h") (simp_all add: elem_sync_interfaces_def)
  with assms obtain el where el: "map_of api h = Some el"
    by (cases "map_of api h") (simp_all add: elem_sync_interfaces_def)
  with assms lis obtain intf where intf: "element_interfaces el = Some intf"
    by (cases "element_interfaces el") (simp_all add: elem_sync_interfaces_def)
  with assms lis el obtain e where e: "e \<in> set lis"
    and c: "c \<in> set (elem_sync_interface cfg intf e)"
    by (auto simp: elem_sync_interfaces_def)
  from c have "c = Update_element_interface (port_id (snd e))
                     (elem_interface_ignore cfg intf (fst e)) \<and>
               ignore (snd e) \<noteq> elem_interface_ignore cfg intf (fst e)"
    by (auto simp: elem_sync_interface_def Let_def split: if_splits)
  with lis el intf e show ?thesis by blast
qed

lemma device_updates_elem_sync_interfaces [simp]:
  "device_updates nm (elem_sync_interfaces cfg api h) = []"
  by (rule device_updates_none) (auto dest: elem_sync_interfaces_calls)

lemma device_updates_elem_update_element:
  "device_updates nm (elem_update_element h le el) =
     (if h = nm \<and> (device_ignore le = 0) \<noteq> active el
      then [if active el then 0 else 1] else [])"
  by (simp add: elem_update_element_def device_updates_Cons Let_def)

lemma device_updates_elem_update_step:
  "device_updates nm (elem_update_step cfg api e) =
     (case map_of api (fst e) of
        None \<Rightarrow> []
      | Some el \<Rightarrow> device_updates nm (elem_update_element (fst e) (snd e) el))"
  by (simp add: elem_update_step_def split: option.splits)

lemma device_updates_elem_main:
  assumes "distinct (map fst les)" and "map_of les nm = Some le"
    and "map_of (elem_api_elements tmp) nm = Some el"
  shows "device_updates nm (elem_main cfg les tmp) =
     (if (device_ignore le = 0) \<noteq> active el then [if active el then 0 else 1] else [])"
proof -
  have "device_updates nm (concat (map (elem_update_step cfg (elem_api_elements tmp)) les)) =
          device_updates nm (elem_update_step cfg (elem_api_elements tmp) (nm, le))"
    using assms(1,2)
    by (rule device_updates_loop)
      (simp add: device_updates_elem_update_step device_updates_elem_update_element
        split: option.splits)
  moreover have "device_updates nm (map Create_element xs) = []"
    and "device_updates nm (map Delete_element xs) = []" for xs
    by (rule device_updates_none; auto)+
  ultimately show ?thesis using assms(3)
    by (simp add: elem_main_def Let_def device_updates_elem_update_step
        device_updates_elem_update_element device_updates_Cons)
qed

lemma elem_main_calls:
  "c \<in> set (elem_main cfg les tmp) \<longleftrightarrow>
     (\<exists>n\<in>set (elem_create_in_librenms les (elem_api_elements tmp)). c = Create_element n) \<or>
     (\<exists>n\<in>set (elem_delete_in_librenms cfg les (elem_api_elements tmp)). c = Delete_element n) \<or>
     (\<exists>e\<in>set les. c \<in> set (elem_update_step cfg (elem_api_elements tmp) e))"
  by (auto simp: elem_main_def Let_def)

lemma elem_update_step_calls:
  "c \<in> set (elem_update_step cfg api e) \<longleftrightarrow>
     (\<exists>el. map_of api (fst e) = Some el \<and>
        (c \<in> set (elem_update_element (fst e) (snd e) el) \<or>
         (element_interfaces el \<noteq> None \<and> c \<in> set (elem_sync_interfaces cfg api (fst e)))))"
proof (cases "map_of api (fst e)")
  case None
  then show ?thesis by (simp add: elem_update_step_def)
next
  case (Some el)
  then show ?thesis
    by (cases "element_interfaces el") (auto simp: elem_update_step_def)
qed

lemma elem_main_no_device_update:
  "Update_device n v \<notin> set (elem_main cfg les tmp)"
  by (auto simp: elem_main_calls elem_update_step_calls elem_update_element_def Let_def
      dest: elem_sync_interfaces_calls split: if_splits)

lemma ignore_after_eq:
  "ignore_after nm stored cs = (if device_updates nm cs = [] then stored else last (device_updates nm cs))"
  by (simp add: ignore_after_def split: list.splits)

section \<open>The reconciliation\<close>

text \<open>
  C1 as stated fails in \<^verbatim>\<open>sync_elements_to_librenms.py\<close>: \<open>r5\<close> is in the Element API,
  marked active, and in LibreNMS with ignore 1, so the claim asks for an update call
  setting ignore to 0. Lines 96-100 leave \<open>r5\<close> out of \<^verbatim>\<open>api_elements\<close> because its
  \<^verbatim>\<open>monitor_librenms\<close> is \<^verbatim>\<open>False\<close>; the update loop skips it (line 166), the run
  deletes it (lines 132-138) and makes no update call for it.
\<close>

theorem unmonitored_element_not_updated:
  "map_of example_unmonitored_tmp_api_elements ''r5'' =
     Some \<lparr>active = True, element_monitor_librenms = Some False, element_interfaces = None\<rparr>
   \<and> map_of example_unmonitored_librenms_elements ''r5'' = Some \<lparr>device_ignore = 1\<rparr>
   \<and> elem_main example_env example_unmonitored_librenms_elements
         example_unmonitored_tmp_api_elements = [Delete_element ''r5'']
   \<and> Update_element ''r5'' 0
         \<notin> set (elem_main example_env example_unmonitored_librenms_elements
                  example_unmonitored_tmp_api_elements)"
  by (simp add: elem_main_def elem_api_elements_def elem_create_in_librenms_def
      elem_delete_in_librenms_def elem_update_step_def example_env_def
      example_unmonitored_librenms_elements_def example_unmonitored_tmp_api_elements_def
      Let_def)

text \<open>
  C1, amended: for a device that is in both inventories (in
  \<^verbatim>\<open>sync_elements_to_librenms.py\<close>: in LibreNMS and in \<^verbatim>\<open>api_elements\<close>, the elements
  of the Element API whose \<^verbatim>\<open>monitor_librenms\<close> is not \<^verbatim>\<open>False\<close>), the job makes the
  update call with ignore 0 exactly when the source marks the device enabled (active)
  and LibreNMS holds ignore other than 0, and the update call with ignore 1 exactly
  when the source marks it disabled (inactive) and LibreNMS holds ignore 0; after the
  calls the flag of the device is 0 if and only if the source marks it enabled
  (active). The keys of a dictionary are distinct.
\<close>

theorem device_flag_synchronised:
  assumes "distinct (map fst librenms_devices)"
    and "map_of librenms_devices nm = Some ld"
    and "map_of api_devices nm = Some ad"
    and "distinct (map fst librenms_elements)"
    and "map_of librenms_elements h = Some le"
    and "map_of (elem_api_elements tmp_api_elements) h = Some el"
  shows "(Update_device nm 0 \<in> set (dev_main cfg librenms_devices api_devices)
            \<longleftrightarrow> enabled ad \<and> device_ignore ld \<noteq> 0)
       \<and> (Update_device nm 1 \<in> set (dev_main cfg librenms_devices api_devices)
            \<longleftrightarrow> \<not> enabled ad \<and> device_ignore ld = 0)
       \<and> (ignore_after nm (device_ignore ld) (dev_main cfg librenms_devices api_devices) = 0
            \<longleftrightarrow> enabled ad)
       \<and> (Update_element h 0 \<in> set (elem_main cfg librenms_elements tmp_api_elements)
            \<longleftrightarrow> active el \<and> device_ignore le \<noteq> 0)
       \<and> (Update_element h 1 \<in> set (elem_main cfg librenms_elements tmp_api_elements)
            \<longleftrightarrow> \<not> active el \<and> device_ignore le = 0)
       \<and> (ignore_after h (device_ignore le) (elem_main cfg librenms_elements tmp_api_elements) = 0
            \<longleftrightarrow> active el)"
proof -
  let ?d = "dev_main cfg librenms_devices api_devices"
  let ?e = "elem_main cfg librenms_elements tmp_api_elements"
  have d: "device_updates nm ?d =
     (if (device_ignore ld = 0) \<noteq> enabled ad then [if enabled ad then 0 else 1] else [])"
    using assms(1-3) by (rule device_updates_dev_main)
  have e: "device_updates h ?e =
     (if (device_ignore le = 0) \<noteq> active el then [if active el then 0 else 1] else [])"
    using assms(4-6) by (rule device_updates_elem_main)
  have dm: "Update_device nm v \<in> set ?d \<longleftrightarrow> v \<in> set (device_updates nm ?d)" for v
    by (simp add: device_updates_mem dev_main_no_element_update)
  have em: "Update_element h v \<in> set ?e \<longleftrightarrow> v \<in> set (device_updates h ?e)" for v
    by (simp add: device_updates_mem elem_main_no_device_update)
  have "Update_device nm 0 \<in> set ?d \<longleftrightarrow> enabled ad \<and> device_ignore ld \<noteq> 0"
    by (simp add: dm d)
  moreover have "Update_device nm 1 \<in> set ?d \<longleftrightarrow> \<not> enabled ad \<and> device_ignore ld = 0"
    by (simp add: dm d)
  moreover have "ignore_after nm (device_ignore ld) ?d = 0 \<longleftrightarrow> enabled ad"
    by (simp add: ignore_after_eq d)
  moreover have "Update_element h 0 \<in> set ?e \<longleftrightarrow> active el \<and> device_ignore le \<noteq> 0"
    by (simp add: em e)
  moreover have "Update_element h 1 \<in> set ?e \<longleftrightarrow> \<not> active el \<and> device_ignore le = 0"
    by (simp add: em e)
  moreover have "ignore_after h (device_ignore le) ?e = 0 \<longleftrightarrow> active el"
    by (simp add: ignore_after_eq e)
  ultimately show ?thesis by blast
qed

lemma example_dev_main:
  "dev_main example_env example_librenms_devices example_api_devices =
     [Create_device ''sw2'', Delete_device ''sw3'', Delete_device ''old1'', Load_devices,
      Update_device ''sw1'' 0, Update_device_interface 1 1, Update_device_interface 2 0,
      Update_device_interface 3 0, Update_device ''sw3'' 1]"
  by (simp add: dev_main_def dev_create_in_librenms_def dev_delete_in_librenms_def
      dev_update_step_def dev_update_device_def dev_sync_interfaces_def dev_sync_interface_def
      dev_interface_ignore_def dev_interface_name_def dev_roles_loop_def disabled_loop_def
      example_env_def example_librenms_devices_def example_api_devices_def example_device_def
      example_interfaces_def Let_def)

lemma example_elem_main:
  "elem_main example_env example_librenms_elements example_tmp_api_elements =
     [Create_element ''r2'', Delete_element ''old1'', Update_element ''r1'' 1,
      Update_element_interface 11 1, Update_element_interface 12 1, Update_element ''r4'' 0]"
  by (simp add: elem_main_def elem_api_elements_def elem_create_in_librenms_def
      elem_delete_in_librenms_def elem_update_step_def elem_update_element_def
      elem_sync_interfaces_def elem_sync_interface_def elem_interface_ignore_def
      elem_roles_loop_def disabled_loop_def example_env_def example_librenms_elements_def
      example_tmp_api_elements_def example_element_intf_def Let_def)


lemma example_lookups:
  "distinct (map fst example_librenms_devices)"
  "distinct (map fst example_api_devices)"
  "distinct (map fst example_librenms_elements)"
  "map_of example_librenms_devices ''sw1'' = Some \<lparr>device_ignore = 1\<rparr>"
  "map_of example_librenms_devices ''sw2'' = None"
  "map_of example_librenms_devices ''sw4'' = None"
  "map_of example_librenms_devices ''old1'' = Some \<lparr>device_ignore = 0\<rparr>"
  "map_of example_librenms_devices ''nms1'' = Some \<lparr>device_ignore = 0\<rparr>"
  "map_of example_api_devices ''sw1'' = Some example_device"
  "map_of example_api_devices ''sw2'' =
     Some \<lparr>enabled = True, monitor_librenms = True, alarm_interfaces = True, interfaces = []\<rparr>"
  "map_of example_api_devices ''sw4'' =
     Some \<lparr>enabled = False, monitor_librenms = True, alarm_interfaces = True, interfaces = []\<rparr>"
  "map_of example_api_devices ''old1'' = None"
  "map_of example_api_devices ''nms1'' = None"
  "map_of example_librenms_elements ''r1'' = Some \<lparr>device_ignore = 0\<rparr>"
  "map_of example_librenms_elements ''r2'' = None"
  "map_of example_librenms_elements ''old1'' = Some \<lparr>device_ignore = 0\<rparr>"
  "map_of (elem_api_elements example_tmp_api_elements) ''r1'' =
     Some \<lparr>active = False, element_monitor_librenms = None,
           element_interfaces = Some example_element_intf\<rparr>"
  "map_of (elem_api_elements example_tmp_api_elements) ''r2'' =
     Some \<lparr>active = True, element_monitor_librenms = Some True, element_interfaces = None\<rparr>"
  "map_of (elem_api_elements example_tmp_api_elements) ''old1'' = None"
  "persistent example_env = [''nms1'']"
  by (simp_all add: example_librenms_devices_def example_api_devices_def
      example_librenms_elements_def example_tmp_api_elements_def elem_api_elements_def
      example_env_def)

theorem device_flag_synchronised_witness:
  "distinct (map fst example_librenms_devices)
   \<and> map_of example_librenms_devices ''sw1'' = Some \<lparr>device_ignore = 1\<rparr>
   \<and> map_of example_api_devices ''sw1'' = Some example_device
   \<and> distinct (map fst example_librenms_elements)
   \<and> map_of example_librenms_elements ''r1'' = Some \<lparr>device_ignore = 0\<rparr>
   \<and> map_of (elem_api_elements example_tmp_api_elements) ''r1'' =
        Some \<lparr>active = False, element_monitor_librenms = None,
              element_interfaces = Some example_element_intf\<rparr>
   \<and> enabled example_device
   \<and> Update_device ''sw1'' 0
        \<in> set (dev_main example_env example_librenms_devices example_api_devices)
   \<and> Update_device ''sw1'' 1
        \<notin> set (dev_main example_env example_librenms_devices example_api_devices)
   \<and> ignore_after ''sw1'' 1
        (dev_main example_env example_librenms_devices example_api_devices) = 0
   \<and> Update_element ''r1'' 1
        \<in> set (elem_main example_env example_librenms_elements example_tmp_api_elements)
   \<and> Update_element ''r1'' 0
        \<notin> set (elem_main example_env example_librenms_elements example_tmp_api_elements)
   \<and> ignore_after ''r1'' 0
        (elem_main example_env example_librenms_elements example_tmp_api_elements) \<noteq> 0"
proof -
  have en: "enabled example_device" by (simp add: example_device_def)
  from device_flag_synchronised [OF example_lookups(1) example_lookups(4) example_lookups(9)
      example_lookups(3) example_lookups(14) example_lookups(17), of example_env]
    example_lookups en
  show ?thesis by simp
qed

lemma count_list_distinct:
  "distinct xs \<Longrightarrow> x \<in> set xs \<Longrightarrow> count_list xs x = 1"
  by (induction xs) auto

lemma dev_create_in_librenms_distinct:
  "distinct (map fst api) \<Longrightarrow> distinct (dev_create_in_librenms lds api)"
  unfolding dev_create_in_librenms_def by (rule distinct_map_filter)

lemma dev_create_in_librenms_mem:
  assumes "distinct (map fst api)"
  shows "nm \<in> set (dev_create_in_librenms lds api) \<longleftrightarrow>
     (\<exists>d. map_of api nm = Some d \<and> enabled d \<and> monitor_librenms d \<and> map_of lds nm = None)"
  using assms by (auto simp: dev_create_in_librenms_def image_iff)

lemma elem_create_in_librenms_mem:
  "h \<in> set (elem_create_in_librenms les api) \<longleftrightarrow>
     map_of api h \<noteq> None \<and> map_of les h = None"
  by (auto simp: elem_create_in_librenms_def map_of_eq_None_iff)

lemma count_create_dev_main:
  "count_list (dev_main cfg lds api) (Create_device nm) =
     count_list (dev_create_in_librenms lds api) nm"
proof -
  have "Create_device nm \<notin> set (map Delete_device xs)" for xs by auto
  moreover have "Create_device nm \<notin> set (concat (map (dev_update_step cfg api) lds))"
    by (auto simp: dev_update_step_calls dev_update_device_def Let_def
        dest: dev_sync_interfaces_calls split: if_splits)
  moreover have "inj Create_device" by (simp add: inj_def)
  ultimately show ?thesis
    by (simp add: dev_main_def Let_def count_list_map_conv)
qed

lemma count_create_elem_main:
  "count_list (elem_main cfg les tmp) (Create_element h) =
     count_list (elem_create_in_librenms les (elem_api_elements tmp)) h"
proof -
  have "Create_element h \<notin> set (map Delete_element xs)" for xs by auto
  moreover have "Create_element h \<notin>
      set (concat (map (elem_update_step cfg (elem_api_elements tmp)) les))"
    by (auto simp: elem_update_step_calls elem_update_element_def Let_def
        dest: elem_sync_interfaces_calls split: if_splits)
  moreover have "inj Create_element" by (simp add: inj_def)
  ultimately show ?thesis
    by (simp add: elem_main_def Let_def count_list_map_conv)
qed

text \<open>
  C2 as stated fails in \<^verbatim>\<open>update_librenms.py\<close>: \<open>sw4\<close> is in the Device-API and not in
  LibreNMS, and no create call is made for it, because the device is not enabled
  (line 147).
\<close>

theorem missing_device_not_created:
  "map_of example_api_devices ''sw4'' =
     Some \<lparr>enabled = False, monitor_librenms = True, alarm_interfaces = True, interfaces = []\<rparr>
   \<and> map_of example_librenms_devices ''sw4'' = None
   \<and> count_list (dev_main example_env example_librenms_devices example_api_devices)
        (Create_device ''sw4'') = 0"
  by (simp add: example_lookups example_dev_main)

text \<open>
  C2, amended: a device of the source inventory that is not in LibreNMS gets exactly
  one create call when the job takes it for monitoring: in \<^verbatim>\<open>update_librenms.py\<close>
  when \<^verbatim>\<open>enabled\<close> and \<^verbatim>\<open>monitor_librenms\<close> both hold (lines 147-150), in
  \<^verbatim>\<open>sync_elements_to_librenms.py\<close> when it is in \<^verbatim>\<open>api_elements\<close>, that is, when
  \<^verbatim>\<open>monitor_librenms\<close> is not \<^verbatim>\<open>False\<close> (lines 96-100).
\<close>

theorem monitored_missing_device_created_once:
  assumes "distinct (map fst api_devices)"
    and "map_of api_devices nm = Some d" and "enabled d" and "monitor_librenms d"
    and "map_of librenms_devices nm = None"
    and "map_of (elem_api_elements tmp_api_elements) h = Some el"
    and "map_of librenms_elements h = None"
  shows "count_list (dev_main cfg librenms_devices api_devices) (Create_device nm) = 1
       \<and> count_list (elem_main cfg librenms_elements tmp_api_elements) (Create_element h) = 1"
proof -
  from assms(1-5) have "nm \<in> set (dev_create_in_librenms librenms_devices api_devices)"
    by (simp add: dev_create_in_librenms_mem)
  with assms(1) have "count_list (dev_create_in_librenms librenms_devices api_devices) nm = 1"
    by (simp add: count_list_distinct dev_create_in_librenms_distinct)
  moreover from assms(6,7)
  have "h \<in> set (elem_create_in_librenms librenms_elements (elem_api_elements tmp_api_elements))"
    by (simp add: elem_create_in_librenms_mem)
  then have "count_list
      (elem_create_in_librenms librenms_elements (elem_api_elements tmp_api_elements)) h = 1"
    by (simp add: count_list_distinct elem_create_in_librenms_def)
  ultimately show ?thesis
    by (simp add: count_create_dev_main count_create_elem_main)
qed

theorem monitored_missing_device_created_once_witness:
  "distinct (map fst example_api_devices)
   \<and> map_of example_api_devices ''sw2'' =
        Some \<lparr>enabled = True, monitor_librenms = True, alarm_interfaces = True, interfaces = []\<rparr>
   \<and> map_of example_librenms_devices ''sw2'' = None
   \<and> map_of (elem_api_elements example_tmp_api_elements) ''r2'' =
        Some \<lparr>active = True, element_monitor_librenms = Some True, element_interfaces = None\<rparr>
   \<and> map_of example_librenms_elements ''r2'' = None
   \<and> count_list (dev_main example_env example_librenms_devices example_api_devices)
        (Create_device ''sw2'') = 1
   \<and> count_list (elem_main example_env example_librenms_elements example_tmp_api_elements)
        (Create_element ''r2'') = 1"
  using monitored_missing_device_created_once [OF example_lookups(2) example_lookups(10) _ _
      example_lookups(5) example_lookups(18) example_lookups(15), of example_env]
    example_lookups
  by simp

text \<open>
  C3 as stated fails: \<open>nms1\<close> is in LibreNMS and not in the Device-API, and no delete
  call is made for it, because it is listed in \<^verbatim>\<open>persistent_devices\<close> (line 159).
\<close>

theorem persistent_device_not_deleted:
  "map_of example_librenms_devices ''nms1'' = Some \<lparr>device_ignore = 0\<rparr>
   \<and> map_of example_api_devices ''nms1'' = None
   \<and> Delete_device ''nms1''
        \<notin> set (dev_main example_env example_librenms_devices example_api_devices)"
  by (simp add: example_lookups example_dev_main)

text \<open>
  C3, amended: a device that is in LibreNMS, is not in the source inventory (in
  \<^verbatim>\<open>sync_elements_to_librenms.py\<close>: not in \<^verbatim>\<open>api_elements\<close>) and is not among the
  persistent names of the configuration gets a delete call.
\<close>

theorem unlisted_device_deleted:
  assumes "nm \<notin> set (persistent cfg)"
    and "map_of librenms_devices nm = Some ld"
    and "map_of api_devices nm = None"
    and "map_of librenms_elements nm = Some le"
    and "map_of (elem_api_elements tmp_api_elements) nm = None"
  shows "Delete_device nm \<in> set (dev_main cfg librenms_devices api_devices)
       \<and> Delete_element nm \<in> set (elem_main cfg librenms_elements tmp_api_elements)"
proof -
  from assms(2) have "(nm, ld) \<in> set librenms_devices" by (rule map_of_SomeD)
  with assms(1,3) have "nm \<in> set (dev_delete_in_librenms cfg librenms_devices api_devices)"
    by (force simp: dev_delete_in_librenms_def)
  moreover from assms(4) have "(nm, le) \<in> set librenms_elements" by (rule map_of_SomeD)
  with assms(1,5)
  have "nm \<in> set (elem_delete_in_librenms cfg librenms_elements
                    (elem_api_elements tmp_api_elements))"
    by (force simp: elem_delete_in_librenms_def map_of_eq_None_iff)
  ultimately show ?thesis
    by (simp add: dev_main_calls elem_main_calls)
qed

theorem unlisted_device_deleted_witness:
  "''old1'' \<notin> set (persistent example_env)
   \<and> map_of example_librenms_devices ''old1'' = Some \<lparr>device_ignore = 0\<rparr>
   \<and> map_of example_api_devices ''old1'' = None
   \<and> map_of example_librenms_elements ''old1'' = Some \<lparr>device_ignore = 0\<rparr>
   \<and> map_of (elem_api_elements example_tmp_api_elements) ''old1'' = None
   \<and> Delete_device ''old1''
        \<in> set (dev_main example_env example_librenms_devices example_api_devices)
   \<and> Delete_element ''old1''
        \<in> set (elem_main example_env example_librenms_elements example_tmp_api_elements)"
proof -
  have p: "''old1'' \<notin> set (persistent example_env)"
    by (simp add: example_lookups)
  from unlisted_device_deleted [OF p example_lookups(7) example_lookups(12)
      example_lookups(16) example_lookups(19)] p example_lookups
  show ?thesis by simp
qed

text \<open>
  C7, in \<^verbatim>\<open>update_librenms.py\<close>: \<open>sw3\<close> is in both inventories, disabled in the
  Device-API and with ignore 0 in LibreNMS. The run deletes it (lines 166-169) and
  then makes a device-level update call for it (lines 205-223): the update loop runs
  over the dictionary read before the deletions.
\<close>

theorem disabled_device_deleted_and_updated:
  "map_of example_librenms_devices ''sw3'' = Some \<lparr>device_ignore = 0\<rparr>
   \<and> map_of example_api_devices ''sw3'' =
        Some \<lparr>enabled = False, monitor_librenms = True, alarm_interfaces = True, interfaces = []\<rparr>
   \<and> Delete_device ''sw3''
        \<in> set (dev_main example_env example_librenms_devices example_api_devices)
   \<and> Update_device ''sw3'' 1
        \<in> set (dev_main example_env example_librenms_devices example_api_devices)"
  by (simp add: example_dev_main) (simp add: example_librenms_devices_def example_api_devices_def)

subsection \<open>The order of the calls\<close>

lemma sorted_map_const:
  "(\<And>x. x \<in> set xs \<Longrightarrow> f x = (k::nat)) \<Longrightarrow> sorted (map f xs)"
  by (induction xs) auto

lemma phase_dev_update_step:
  "c \<in> set (dev_update_step cfg api e) \<Longrightarrow> phase c = 2"
  by (auto simp: dev_update_step_calls dev_update_device_def Let_def
      dest: dev_sync_interfaces_calls split: if_splits)

lemma phase_elem_update_step:
  "c \<in> set (elem_update_step cfg api e) \<Longrightarrow> phase c = 2"
  by (auto simp: elem_update_step_calls elem_update_element_def Let_def
      dest: elem_sync_interfaces_calls split: if_splits)

text \<open>
  C8: in every run the calls are made in the order create, delete, update: along the
  list of calls the phase never decreases, so no create call follows a delete or an
  update call, and no delete call follows a device-level or interface-level update
  call (or the reload of the device list between the two).
\<close>

theorem create_delete_update_order:
  "sorted (map phase (dev_main cfg librenms_devices api_devices))
   \<and> sorted (map phase (elem_main cfg librenms_elements tmp_api_elements))"
proof
  have "sorted (map phase (concat (map (dev_update_step cfg api_devices) librenms_devices)))"
    by (rule sorted_map_const [where k = 2]) (auto dest: phase_dev_update_step)
  moreover have "sorted (map phase (map Create_device xs))"
    and "sorted (map phase (map Delete_device xs))" for xs
    by (rule sorted_map_const [where k = 0], auto, rule sorted_map_const [where k = 1], auto)
  ultimately show "sorted (map phase (dev_main cfg librenms_devices api_devices))"
    by (auto simp: dev_main_def Let_def sorted_append dest: phase_dev_update_step)
next
  have "sorted (map phase (concat (map (elem_update_step cfg (elem_api_elements tmp_api_elements))
           librenms_elements)))"
    by (rule sorted_map_const [where k = 2]) (auto dest: phase_elem_update_step)
  moreover have "sorted (map phase (map Create_element xs))"
    and "sorted (map phase (map Delete_element xs))" for xs
    by (rule sorted_map_const [where k = 0], auto, rule sorted_map_const [where k = 1], auto)
  ultimately show "sorted (map phase (elem_main cfg librenms_elements tmp_api_elements))"
    by (auto simp: elem_main_def Let_def sorted_append dest: phase_elem_update_step)
qed

section \<open>Exceptions\<close>

text \<open>
  C9 as stated fails: the module body runs before the \<^verbatim>\<open>try\<close> statement. With the
  pattern \<open>(uplink\<close> in \<^verbatim>\<open>roles_enabled\<close>, \<^verbatim>\<open>re.compile\<close> raises while the module
  compiles the allow-list, no handler is in place, and the exception leaves the script
  unreported.
\<close>

theorem bad_pattern_propagates:
  "load_config example_world_bad_pattern
     = Some \<lparr>roles_enabled = [''(uplink''], interfaces_disabled = [''Vlan''],
             persistent_names = [''nms1'']\<rparr>
   \<and> \<not> compiles example_world_bad_pattern ''(uplink''
   \<and> dev_script example_world_bad_pattern example_librenms_devices example_api_devices
       = Propagated []
   \<and> elem_script example_world_bad_pattern example_librenms_elements example_tmp_api_elements
       = Propagated []"
  by (simp add: dev_script_def elem_script_def script_def example_world_bad_pattern_def
      example_world_def)

text \<open>
  C9, amended: when the configuration loads, every pattern of the two lists compiles
  and \<^verbatim>\<open>utils.send_traceback\<close> returns, the script ends in one of two ways: \<^verbatim>\<open>main\<close>
  returns, having made all its calls; or an exception raised inside \<^verbatim>\<open>main\<close> is caught
  by the handler and reported, and the calls made are the calls of \<^verbatim>\<open>main\<close> up to that
  point, none repeated and none undone. No exception leaves the script.
\<close>

theorem handler_reports_exceptions_of_main:
  assumes "load_config w = Some conf"
    and "list_all (compiles w) (roles_enabled conf)"
    and "list_all (compiles w) (interfaces_disabled conf)"
    and "send_traceback_returns w"
  shows "dev_script w librenms_devices api_devices =
           (case fault w of
              None \<Rightarrow> Finished (dev_main (job_env_of w conf) librenms_devices api_devices)
            | Some k \<Rightarrow>
                Reported (take k (dev_main (job_env_of w conf) librenms_devices api_devices)))
       \<and> elem_script w librenms_elements tmp_api_elements =
           (case fault w of
              None \<Rightarrow> Finished (elem_main (job_env_of w conf) librenms_elements tmp_api_elements)
            | Some k \<Rightarrow>
                Reported (take k (elem_main (job_env_of w conf) librenms_elements
                                    tmp_api_elements)))"
  using assms
  by (simp add: dev_script_def elem_script_def script_def try_main_def split: option.splits)

lemma example_world_env: 
  "job_env_of example_world
     \<lparr>roles_enabled = [''uplink'', ''core''], interfaces_disabled = [''Vlan''],
      persistent_names = [''nms1'']\<rparr> = example_env"
  by (simp add: job_env_of_def example_world_def example_env_def)

theorem handler_reports_exceptions_of_main_witness:
  "load_config example_world
     = Some \<lparr>roles_enabled = [''uplink'', ''core''], interfaces_disabled = [''Vlan''],
             persistent_names = [''nms1'']\<rparr>
   \<and> list_all (compiles example_world) [''uplink'', ''core'']
   \<and> list_all (compiles example_world) [''Vlan'']
   \<and> send_traceback_returns example_world
   \<and> fault example_world = Some 2
   \<and> dev_script example_world example_librenms_devices example_api_devices
       = Reported [Create_device ''sw2'', Delete_device ''sw3'']
   \<and> elem_script example_world example_librenms_elements example_tmp_api_elements
       = Reported [Create_element ''r2'', Delete_element ''old1'']"
proof -
  have c: "load_config example_world
     = Some \<lparr>roles_enabled = [''uplink'', ''core''], interfaces_disabled = [''Vlan''],
             persistent_names = [''nms1'']\<rparr>"
    and s: "send_traceback_returns example_world"
    and f: "fault example_world = Some 2"
    and p: "compiles example_world = (\<lambda>p. p \<noteq> ''(uplink'')"
    by (simp_all add: example_world_def)
  from handler_reports_exceptions_of_main [OF c _ _ s,
      of example_librenms_devices example_api_devices
         example_librenms_elements example_tmp_api_elements]
    c s f p example_world_env example_dev_main example_elem_main
  show ?thesis by simp
qed

section \<open>No redundant updates\<close>

lemma dev_main_update_device_only_if:
  assumes "Update_device nm v \<in> set (dev_main cfg lds api)"
  shows "\<exists>ld ad. (nm, ld) \<in> set lds \<and> map_of api nm = Some ad \<and>
           v = (if enabled ad then 0 else 1) \<and> device_ignore ld \<noteq> v"
proof -
  from assms obtain e ad where e: "e \<in> set lds" and ad: "map_of api (fst e) = Some ad"
    and c: "Update_device nm v \<in> set (dev_update_device (fst e) (snd e) ad)"
    by (auto simp: dev_main_calls dev_update_step_calls dest: dev_sync_interfaces_calls)
  from c have "fst e = nm" and "v = (if enabled ad then 0 else 1)" and "device_ignore (snd e) \<noteq> v"
    by (auto simp: dev_update_device_def Let_def split: if_splits)
  moreover obtain n0 ld where "e = (n0, ld)" by (cases e) simp
  ultimately show ?thesis using e ad by auto
qed

lemma dev_main_update_interface_only_if:
  assumes "Update_device_interface p v \<in> set (dev_main cfg lds api)"
  shows "\<exists>nm ld ad lis li. (nm, ld) \<in> set lds \<and> map_of api nm = Some ad \<and>
           get_interfaces cfg nm = Some lis \<and> li \<in> snd ` set lis \<and> port_id li = p \<and>
           v = dev_interface_ignore cfg ad li \<and> ignore li \<noteq> v"
proof -
  from assms obtain e ad where e: "e \<in> set lds" and ad: "map_of api (fst e) = Some ad"
    and c: "Update_device_interface p v \<in> set (dev_sync_interfaces cfg (fst e) ad)"
    by (auto simp: dev_main_calls dev_update_step_calls dev_update_device_def Let_def
        split: if_splits)
  from dev_sync_interfaces_calls [OF c] obtain lis li
    where "get_interfaces cfg (fst e) = Some lis" and "li \<in> snd ` set lis"
      and "port_id li = p" and "v = dev_interface_ignore cfg ad li" and "ignore li \<noteq> v"
    by auto
  moreover obtain n0 ld where "e = (n0, ld)" by (cases e) simp
  ultimately show ?thesis using e ad by auto
qed

lemma elem_main_update_element_only_if:
  assumes "Update_element h v \<in> set (elem_main cfg les tmp)"
  shows "\<exists>le el. (h, le) \<in> set les \<and> map_of (elem_api_elements tmp) h = Some el \<and>
           v = (if active el then 0 else 1) \<and> device_ignore le \<noteq> v"
proof -
  from assms obtain e el where e: "e \<in> set les"
    and el: "map_of (elem_api_elements tmp) (fst e) = Some el"
    and c: "Update_element h v \<in> set (elem_update_element (fst e) (snd e) el)"
    by (auto simp: elem_main_calls elem_update_step_calls dest: elem_sync_interfaces_calls)
  from c have "fst e = h" and "v = (if active el then 0 else 1)" and "device_ignore (snd e) \<noteq> v"
    by (auto simp: elem_update_element_def Let_def split: if_splits)
  moreover obtain n0 le where "e = (n0, le)" by (cases e) simp
  ultimately show ?thesis using e el by auto
qed

lemma elem_main_update_interface_only_if:
  assumes "Update_element_interface p v \<in> set (elem_main cfg les tmp)"
  shows "\<exists>h le el intf lis e. (h, le) \<in> set les \<and>
           map_of (elem_api_elements tmp) h = Some el \<and> element_interfaces el = Some intf \<and>
           get_interfaces cfg h = Some lis \<and> e \<in> set lis \<and> port_id (snd e) = p \<and>
           v = elem_interface_ignore cfg intf (fst e) \<and> ignore (snd e) \<noteq> v"
proof -
  from assms obtain e0 where e0: "e0 \<in> set les"
    and c: "Update_element_interface p v \<in>
              set (elem_sync_interfaces cfg (elem_api_elements tmp) (fst e0))"
    by (auto simp: elem_main_calls elem_update_step_calls elem_update_element_def Let_def
        split: if_splits)
  from elem_sync_interfaces_calls [OF c] obtain lis el intf e
    where "get_interfaces cfg (fst e0) = Some lis"
      and "map_of (elem_api_elements tmp) (fst e0) = Some el"
      and "element_interfaces el = Some intf" and "e \<in> set lis"
      and "port_id (snd e) = p" and "v = elem_interface_ignore cfg intf (fst e)"
      and "ignore (snd e) \<noteq> v"
    by auto
  moreover obtain n0 le where "e0 = (n0, le)" by (cases e0) simp
  ultimately have "(n0, le) \<in> set les \<and>
           map_of (elem_api_elements tmp) n0 = Some el \<and> element_interfaces el = Some intf \<and>
           get_interfaces cfg n0 = Some lis \<and> e \<in> set lis \<and> port_id (snd e) = p \<and>
           v = elem_interface_ignore cfg intf (fst e) \<and> ignore (snd e) \<noteq> v"
    using e0 by simp
  then show ?thesis by blast
qed

text \<open>
  C10: a device or an interface whose flag in LibreNMS equals the derived flag gets no
  update call (the first four conjuncts, one per update site), and every update call
  of a run is for a device or interface whose flag in LibreNMS differs from the
  derived flag the call carries (the last four conjuncts).
\<close>

theorem updates_only_where_flags_differ:
  "(device_ignore ld = (if enabled ad then 0 else 1) \<longrightarrow> dev_update_device n1 ld ad = [])
   \<and> (ignore li = dev_interface_ignore cfg ad li \<longrightarrow> dev_sync_interface cfg ad li = [])
   \<and> (device_ignore le = (if active el then 0 else 1) \<longrightarrow> elem_update_element h1 le el = [])
   \<and> (ignore (snd e) = elem_interface_ignore cfg intf (fst e) \<longrightarrow>
        elem_sync_interface cfg intf e = [])
   \<and> (Update_device nm v \<in> set (dev_main cfg librenms_devices api_devices) \<longrightarrow>
        (\<exists>ld ad. (nm, ld) \<in> set librenms_devices \<and> map_of api_devices nm = Some ad \<and>
           v = (if enabled ad then 0 else 1) \<and> device_ignore ld \<noteq> v))
   \<and> (Update_device_interface p pv \<in> set (dev_main cfg librenms_devices api_devices) \<longrightarrow>
        (\<exists>nm ld ad lis li. (nm, ld) \<in> set librenms_devices \<and> map_of api_devices nm = Some ad \<and>
           get_interfaces cfg nm = Some lis \<and> li \<in> snd ` set lis \<and> port_id li = p \<and>
           pv = dev_interface_ignore cfg ad li \<and> ignore li \<noteq> pv))
   \<and> (Update_element h hv \<in> set (elem_main cfg librenms_elements tmp_api_elements) \<longrightarrow>
        (\<exists>le el. (h, le) \<in> set librenms_elements \<and>
           map_of (elem_api_elements tmp_api_elements) h = Some el \<and>
           hv = (if active el then 0 else 1) \<and> device_ignore le \<noteq> hv))
   \<and> (Update_element_interface q qv \<in> set (elem_main cfg librenms_elements tmp_api_elements) \<longrightarrow>
        (\<exists>h le el intf lis e. (h, le) \<in> set librenms_elements \<and>
           map_of (elem_api_elements tmp_api_elements) h = Some el \<and>
           element_interfaces el = Some intf \<and> get_interfaces cfg h = Some lis \<and>
           e \<in> set lis \<and> port_id (snd e) = q \<and>
           qv = elem_interface_ignore cfg intf (fst e) \<and> ignore (snd e) \<noteq> qv))"
proof -
  have "device_ignore ld = (if enabled ad then 0 else 1) \<longrightarrow> dev_update_device n1 ld ad = []"
    by (simp add: dev_update_device_def)
  moreover
  have "ignore li = dev_interface_ignore cfg ad li \<longrightarrow> dev_sync_interface cfg ad li = []"
    by (simp add: dev_sync_interface_def)
  moreover
  have "device_ignore le = (if active el then 0 else 1) \<longrightarrow> elem_update_element h1 le el = []"
    by (simp add: elem_update_element_def)
  moreover
  have "ignore (snd e) = elem_interface_ignore cfg intf (fst e) \<longrightarrow>
        elem_sync_interface cfg intf e = []"
    by (simp add: elem_sync_interface_def)
  ultimately show ?thesis
    using dev_main_update_device_only_if [of nm v cfg librenms_devices api_devices]
      dev_main_update_interface_only_if [of p pv cfg librenms_devices api_devices]
      elem_main_update_element_only_if [of h hv cfg librenms_elements tmp_api_elements]
      elem_main_update_interface_only_if [of q qv cfg librenms_elements tmp_api_elements]
    by blast
qed

theorem updates_only_where_flags_differ_witness:
  "device_ignore \<lparr>device_ignore = 0\<rparr> = (if enabled example_device then 0 else 1)
   \<and> dev_update_device ''sw1'' \<lparr>device_ignore = 0\<rparr> example_device = []
   \<and> ignore (example_port ''Vlan10'' \<lparr>ignore := 1\<rparr>)
       = dev_interface_ignore example_env example_device (example_port ''Vlan10'' \<lparr>ignore := 1\<rparr>)
   \<and> dev_sync_interface example_env example_device (example_port ''Vlan10'' \<lparr>ignore := 1\<rparr>) = []
   \<and> device_ignore \<lparr>device_ignore = 0\<rparr>
       = (if active \<lparr>active = True, element_monitor_librenms = None, element_interfaces = None\<rparr>
          then 0 else 1)
   \<and> elem_update_element ''r4'' \<lparr>device_ignore = 0\<rparr>
        \<lparr>active = True, element_monitor_librenms = None, element_interfaces = None\<rparr> = []
   \<and> ignore (snd (''Vlan10'', example_port ''Vlan10'' \<lparr>ignore := 1\<rparr>))
       = elem_interface_ignore example_env example_element_intf
           (fst (''Vlan10'', example_port ''Vlan10'' \<lparr>ignore := 1\<rparr>))
   \<and> elem_sync_interface example_env example_element_intf
        (''Vlan10'', example_port ''Vlan10'' \<lparr>ignore := 1\<rparr>) = []
   \<and> Update_device ''sw1'' 0
        \<in> set (dev_main example_env example_librenms_devices example_api_devices)
   \<and> (\<exists>ld ad. (''sw1'', ld) \<in> set example_librenms_devices \<and>
          map_of example_api_devices ''sw1'' = Some ad \<and>
          (0::int) = (if enabled ad then 0 else 1) \<and> device_ignore ld \<noteq> 0)
   \<and> Update_device_interface 2 0
        \<in> set (dev_main example_env example_librenms_devices example_api_devices)
   \<and> (\<exists>nm ld ad lis li. (nm, ld) \<in> set example_librenms_devices \<and>
          map_of example_api_devices nm = Some ad \<and>
          get_interfaces example_env nm = Some lis \<and> li \<in> snd ` set lis \<and> port_id li = 2 \<and>
          0 = dev_interface_ignore example_env ad li \<and> ignore li \<noteq> 0)
   \<and> Update_element ''r1'' 1
        \<in> set (elem_main example_env example_librenms_elements example_tmp_api_elements)
   \<and> (\<exists>le el. (''r1'', le) \<in> set example_librenms_elements \<and>
          map_of (elem_api_elements example_tmp_api_elements) ''r1'' = Some el \<and>
          (1::int) = (if active el then 0 else 1) \<and> device_ignore le \<noteq> 1)
   \<and> Update_element_interface 11 1
        \<in> set (elem_main example_env example_librenms_elements example_tmp_api_elements)
   \<and> (\<exists>h le el intf lis e. (h, le) \<in> set example_librenms_elements \<and>
          map_of (elem_api_elements example_tmp_api_elements) h = Some el \<and>
          element_interfaces el = Some intf \<and> get_interfaces example_env h = Some lis \<and>
          e \<in> set lis \<and> port_id (snd e) = 11 \<and>
          1 = elem_interface_ignore example_env intf (fst e) \<and> ignore (snd e) \<noteq> 1)"
proof -
  let ?li = "example_port ''Vlan10'' \<lparr>ignore := 1\<rparr>"
  let ?el = "\<lparr>active = True, element_monitor_librenms = None, element_interfaces = None\<rparr>"
  have a: "device_ignore \<lparr>device_ignore = 0\<rparr> = (if enabled example_device then 0 else 1)"
    by (simp add: example_device_def)
  have b: "ignore ?li = dev_interface_ignore example_env example_device ?li"
    by (simp add: dev_interface_ignore_def dev_interface_name_def dev_roles_loop_def
        disabled_loop_def example_port_def example_device_def example_interfaces_def
        example_env_def)
  have c: "device_ignore \<lparr>device_ignore = 0\<rparr> = (if active ?el then 0 else 1)"
    by simp
  have d: "ignore (snd (''Vlan10'', ?li))
      = elem_interface_ignore example_env example_element_intf (fst (''Vlan10'', ?li))"
    by (simp add: elem_interface_ignore_def elem_roles_loop_def disabled_loop_def
        example_port_def example_element_intf_def example_env_def)
  have e: "Update_device ''sw1'' 0
        \<in> set (dev_main example_env example_librenms_devices example_api_devices)"
    and f: "Update_device_interface 2 0
        \<in> set (dev_main example_env example_librenms_devices example_api_devices)"
    by (simp_all add: example_dev_main)
  have g: "Update_element ''r1'' 1
        \<in> set (elem_main example_env example_librenms_elements example_tmp_api_elements)"
    and h: "Update_element_interface 11 1
        \<in> set (elem_main example_env example_librenms_elements example_tmp_api_elements)"
    by (simp_all add: example_elem_main)
  note t = updates_only_where_flags_differ [of "\<lparr>device_ignore = 0\<rparr>" example_device "''sw1''"
      ?li example_env "\<lparr>device_ignore = 0\<rparr>" ?el "''r4''" "(''Vlan10'', ?li)"
      example_element_intf "''sw1''" 0 example_librenms_devices example_api_devices 2 0
      "''r1''" 1 example_librenms_elements example_tmp_api_elements 11 1]
  note t2 = t [THEN conjunct2]
  note t3 = t2 [THEN conjunct2]
  note t4 = t3 [THEN conjunct2]
  note t5 = t4 [THEN conjunct2]
  note t6 = t5 [THEN conjunct2]
  note t7 = t6 [THEN conjunct2]
  note t8 = t7 [THEN conjunct2]
  note c1 = t [THEN conjunct1, THEN mp, OF a]
  note c2 = t2 [THEN conjunct1, THEN mp, OF b]
  note c3 = t3 [THEN conjunct1, THEN mp, OF c]
  note c4 = t4 [THEN conjunct1, THEN mp, OF d]
  note c5 = t5 [THEN conjunct1, THEN mp, OF e]
  note c6 = t6 [THEN conjunct1, THEN mp, OF f]
  note c7 = t7 [THEN conjunct1, THEN mp, OF g]
  note c8 = t8 [THEN mp, OF h]
  show ?thesis
    by (intro conjI) (rule a c1 b c2 c c3 d c4 e c5 f c6 g c7 h c8)+
qed

section \<open>One kind of action per name\<close>

lemma dev_main_create_mem:
  "Create_device n \<in> set (dev_main cfg lds api) \<longleftrightarrow> n \<in> set (dev_create_in_librenms lds api)"
  by (auto simp: dev_main_calls dev_update_step_calls dev_update_device_def Let_def
      dest: dev_sync_interfaces_calls split: if_splits)

lemma dev_main_delete_mem:
  "Delete_device n \<in> set (dev_main cfg lds api) \<longleftrightarrow> n \<in> set (dev_delete_in_librenms cfg lds api)"
  by (auto simp: dev_main_calls dev_update_step_calls dev_update_device_def Let_def
      dest: dev_sync_interfaces_calls split: if_splits)

lemma elem_main_create_mem:
  "Create_element n \<in> set (elem_main cfg les tmp) \<longleftrightarrow>
     n \<in> set (elem_create_in_librenms les (elem_api_elements tmp))"
  by (auto simp: elem_main_calls elem_update_step_calls elem_update_element_def Let_def
      dest: elem_sync_interfaces_calls split: if_splits)

lemma elem_main_delete_mem:
  "Delete_element n \<in> set (elem_main cfg les tmp) \<longleftrightarrow>
     n \<in> set (elem_delete_in_librenms cfg les (elem_api_elements tmp))"
  by (auto simp: elem_main_calls elem_update_step_calls elem_update_element_def Let_def
      dest: elem_sync_interfaces_calls split: if_splits)

text \<open>
  In \<^verbatim>\<open>sync_elements_to_librenms.py\<close> no name gets two kinds of action: the names
  created, deleted and updated are pairwise disjoint. In \<^verbatim>\<open>update_librenms.py\<close> the
  names created are disjoint from the names deleted and from the names updated.
\<close>

theorem element_actions_disjoint:
  "\<not> (Create_element h \<in> set (elem_main cfg librenms_elements tmp_api_elements)
       \<and> Delete_element h \<in> set (elem_main cfg librenms_elements tmp_api_elements))
   \<and> \<not> (Create_element h \<in> set (elem_main cfg librenms_elements tmp_api_elements)
       \<and> Update_element h v \<in> set (elem_main cfg librenms_elements tmp_api_elements))
   \<and> \<not> (Delete_element h \<in> set (elem_main cfg librenms_elements tmp_api_elements)
       \<and> Update_element h v \<in> set (elem_main cfg librenms_elements tmp_api_elements))
   \<and> \<not> (Create_device h \<in> set (dev_main cfg librenms_devices api_devices)
       \<and> Delete_device h \<in> set (dev_main cfg librenms_devices api_devices))
   \<and> \<not> (Create_device h \<in> set (dev_main cfg librenms_devices api_devices)
       \<and> Update_device h v \<in> set (dev_main cfg librenms_devices api_devices))"
proof -
  have cd: "h \<in> set (dev_create_in_librenms librenms_devices api_devices)
              \<Longrightarrow> map_of librenms_devices h = None"
    by (auto simp: dev_create_in_librenms_def)
  have dd: "h \<in> set (dev_delete_in_librenms cfg librenms_devices api_devices)
              \<Longrightarrow> map_of librenms_devices h \<noteq> None"
    by (auto simp: dev_delete_in_librenms_def intro: weak_map_of_SomeI)
  have ud: "Update_device h v \<in> set (dev_main cfg librenms_devices api_devices)
              \<Longrightarrow> map_of librenms_devices h \<noteq> None"
    by (auto dest!: dev_main_update_device_only_if intro: weak_map_of_SomeI)
  have ce: "h \<in> set (elem_create_in_librenms librenms_elements (elem_api_elements tmp_api_elements))
              \<Longrightarrow> map_of librenms_elements h = None"
    by (simp add: elem_create_in_librenms_mem)
  have de: "h \<in> set (elem_delete_in_librenms cfg librenms_elements (elem_api_elements tmp_api_elements))
              \<Longrightarrow> map_of librenms_elements h \<noteq> None \<and>
                  map_of (elem_api_elements tmp_api_elements) h = None"
    by (auto simp: elem_delete_in_librenms_def map_of_eq_None_iff intro: weak_map_of_SomeI)
  have ue: "Update_element h v \<in> set (elem_main cfg librenms_elements tmp_api_elements)
              \<Longrightarrow> map_of librenms_elements h \<noteq> None \<and>
                  map_of (elem_api_elements tmp_api_elements) h \<noteq> None"
    by (auto dest!: elem_main_update_element_only_if intro: weak_map_of_SomeI)
  show ?thesis
    using cd dd ud ce de ue
    by (simp only: dev_main_create_mem dev_main_delete_mem elem_main_create_mem
        elem_main_delete_mem) blast
qed

end
